theory Spec2Isabelle
  imports Main
begin

section \<open>JavaScript values\<close>

text \<open>
  The SDK handles values whose shape is not checked at run time: a response body is
  whatever \<^verbatim>\<open>response.json()\<close> or \<^verbatim>\<open>response.text()\<close> produced, cast to
  \<^verbatim>\<open>ApiErrorResponse | null\<close>. Such values are modelled by one datatype.

  A number \<open>Num n\<close> stands for the Number value of the mathematical integer \<open>n\<close>
  (which is \<open>n\<close> itself up to \<open>2 ^ 53\<close> in magnitude); both zeros are \<open>Num 0\<close>.
  Numbers with a fractional part are not represented. A string is a list of code units
  below 256. An object is the list of its own properties, in enumeration order; a
  lookup finds the first entry for a key.
\<close>

datatype jsnum = NaN | Num int

datatype jsval =
    JUndefined
  | JNull
  | JBool bool
  | JNum jsnum
  | JStr string
  | JArr "jsval list"
  | JObj "(string \<times> jsval) list"

text \<open>Truthiness, as \<^verbatim>\<open>if (v)\<close>, \<^verbatim>\<open>v ? a : b\<close>, \<^verbatim>\<open>v && w\<close> and \<^verbatim>\<open>v || w\<close> test it.\<close>

fun truthy :: "jsval \<Rightarrow> bool" where
  "truthy JUndefined = False"
| "truthy JNull = False"
| "truthy (JBool b) = b"
| "truthy (JNum NaN) = False"
| "truthy (JNum (Num n)) = (n \<noteq> 0)"
| "truthy (JStr s) = (s \<noteq> [])"
| "truthy (JArr xs) = True"
| "truthy (JObj kvs) = True"

text \<open>
  Optional property access \<^verbatim>\<open>v?.k\<close>: undefined on \<^verbatim>\<open>null\<close> and \<^verbatim>\<open>undefined\<close>, the own
  property on an object, and undefined on every other value for the keys read here
  (\<^verbatim>\<open>error\<close>, \<^verbatim>\<open>message\<close>, \<^verbatim>\<open>code\<close>, \<^verbatim>\<open>details\<close>, \<^verbatim>\<open>piiTypes\<close>), none of which a built-in
  prototype defines.
\<close>

fun js_get :: "jsval \<Rightarrow> string \<Rightarrow> jsval" where
  "js_get (JObj kvs) k = (case map_of kvs k of Some v \<Rightarrow> v | None \<Rightarrow> JUndefined)"
| "js_get v k = JUndefined"

text \<open>Nullish coalescing \<^verbatim>\<open>a ?? b\<close>.\<close>

definition nullish :: "jsval \<Rightarrow> jsval \<Rightarrow> jsval" where
  "nullish a b = (if a = JUndefined \<or> a = JNull then b else a)"

text \<open>A default parameter value \<^verbatim>\<open>(x = d)\<close> replaces \<^verbatim>\<open>undefined\<close> only.\<close>

definition default_arg :: "jsval \<Rightarrow> jsval \<Rightarrow> jsval" where
  "default_arg x d = (if x = JUndefined then d else x)"

subsection \<open>Numbers and strings\<close>

definition digit_val :: "char \<Rightarrow> nat option" where
  "digit_val = map_of
     [(CHR ''0'', 0), (CHR ''1'', 1), (CHR ''2'', 2), (CHR ''3'', 3), (CHR ''4'', 4),
      (CHR ''5'', 5), (CHR ''6'', 6), (CHR ''7'', 7), (CHR ''8'', 8), (CHR ''9'', 9)]"

definition is_digit :: "char \<Rightarrow> bool" where
  "is_digit c = (digit_val c \<noteq> None)"

definition dec_value :: "string \<Rightarrow> nat" where
  "dec_value ds = foldl (\<lambda>a c. 10 * a + (case digit_val c of Some d \<Rightarrow> d | None \<Rightarrow> 0)) 0 ds"

text \<open>
  The white space that \<^verbatim>\<open>parseInt\<close> skips, among the code units below 256: tab, line
  feed, vertical tab, form feed, carriage return, space and no-break space.
\<close>

definition is_js_whitespace :: "char \<Rightarrow> bool" where
  "is_js_whitespace c = (c \<in> set [CHR 0x09, CHR 0x0A, CHR 0x0B, CHR 0x0C, CHR 0x0D, CHR 0x20, CHR 0xA0])"

text \<open>
  \<^verbatim>\<open>parseInt(s, 10)\<close>: skip leading white space, read an optional sign, then the longest
  run of decimal digits; no digit gives \<^verbatim>\<open>NaN\<close>, whatever follows the digits is ignored.
\<close>

definition parseInt10 :: "string \<Rightarrow> jsnum" where
  "parseInt10 s =
     (let s1 = dropWhile is_js_whitespace s;
          sgn = (case s1 of c # r \<Rightarrow> (if c = CHR ''-'' then - 1 else 1) | [] \<Rightarrow> (1::int));
          s2 = (case s1 of c # r \<Rightarrow> (if c = CHR ''-'' \<or> c = CHR ''+'' then r else s1) | [] \<Rightarrow> s1);
          z = takeWhile is_digit s2
      in if z = [] then NaN else Num (sgn * int (dec_value z)))"

definition digit_char :: "nat \<Rightarrow> char" where
  "digit_char d = ''0123456789'' ! (d mod 10)"

fun nat_toString :: "nat \<Rightarrow> string" where
  "nat_toString n = (if n < 10 then [digit_char n] else nat_toString (n div 10) @ [digit_char n])"

declare nat_toString.simps [simp del]

text \<open>
  Number-to-string conversion, as a template literal or \<^verbatim>\<open>String(n)\<close> applies it: plain
  decimal digits, which is what JavaScript prints for integers below \<open>10 ^ 21\<close> in
  magnitude.
\<close>

fun number_toString :: "jsnum \<Rightarrow> string" where
  "number_toString NaN = ''NaN''"
| "number_toString (Num n) = (if n < 0 then CHR ''-'' # nat_toString (nat (- n)) else nat_toString (nat n))"

text \<open>\<^verbatim>\<open>s.startsWith(p)\<close> and \<^verbatim>\<open>s.includes(p)\<close>.\<close>

definition startsWith :: "string \<Rightarrow> string \<Rightarrow> bool" where
  "startsWith s p = (take (length p) s = p)"

fun str_includes :: "string \<Rightarrow> string \<Rightarrow> bool" where
  "str_includes [] p = (p = [])"
| "str_includes (c # s) p = (startsWith (c # s) p \<or> str_includes s p)"

section \<open>The error taxonomy (errors.ts)\<close>

subsection \<open>The message that \<^verbatim>\<open>Error\<close> stores\<close>

text \<open>
  \<^verbatim>\<open>super(message)\<close> reaches the constructor of \<^verbatim>\<open>Error\<close>, which stores the string
  conversion of its argument. The conversion of a string is the string; of an array, the
  conversions of its elements joined by commas, with nothing for \<^verbatim>\<open>null\<close> and \<^verbatim>\<open>undefined\<close>
  elements; of an object without an own \<^verbatim>\<open>toString\<close> property, \<^verbatim>\<open>[object Object]\<close>. An object
  with an own \<^verbatim>\<open>toString\<close> property has no conversion: the property, being data, cannot be
  called, \<^verbatim>\<open>valueOf\<close> does not give a primitive either, and the conversion throws a
  \<^verbatim>\<open>TypeError\<close>. That is \<open>None\<close>.
\<close>

fun js_toString :: "jsval \<Rightarrow> string option"
  and js_join :: "jsval list \<Rightarrow> string option" where
  "js_toString JUndefined = Some ''undefined''"
| "js_toString JNull = Some ''null''"
| "js_toString (JBool b) = Some (if b then ''true'' else ''false'')"
| "js_toString (JNum n) = Some (number_toString n)"
| "js_toString (JStr s) = Some s"
| "js_toString (JArr xs) = js_join xs"
| "js_toString (JObj kvs) =
     (if map_of kvs ''toString'' = None then Some ''[object Object]'' else None)"
| "js_join [] = Some []"
| "js_join (x # xs) =
     (case (if x = JUndefined \<or> x = JNull then Some [] else js_toString x) of
        None \<Rightarrow> None
      | Some a \<Rightarrow>
          if xs = [] then Some a
          else (case js_join xs of None \<Rightarrow> None | Some b \<Rightarrow> Some (a @ '','' @ b)))"

text \<open>
  The \<^verbatim>\<open>message\<close> of a new \<^verbatim>\<open>Error(message)\<close>: without an argument the error has no message
  of its own and reads the empty string of the prototype.
\<close>

definition Error_message :: "jsval \<Rightarrow> string option" where
  "Error_message msg = (if msg = JUndefined then Some [] else js_toString msg)"

subsection \<open>The error classes\<close>

text \<open>
  One record for every error class. \<open>name\<close> is the class's \<^verbatim>\<open>this.name\<close> and \<open>message\<close> the
  message that \<^verbatim>\<open>Error\<close> stored. A field a class does not set reads \<^verbatim>\<open>undefined\<close>. A
  constructor gives \<open>None\<close> when it throws, which it does when the message has no string
  conversion, and only then.
\<close>

record veilmail_error =
  name :: string
  message :: string
  code :: jsval
  status :: jsval
  details :: jsval
  piiTypes :: jsval
  retryAfter :: jsval

definition VeilMailError :: "jsval \<Rightarrow> jsval \<Rightarrow> jsval \<Rightarrow> jsval \<Rightarrow> veilmail_error option" where
  "VeilMailError msg c st det =
     (case Error_message msg of
        None \<Rightarrow> None
      | Some m \<Rightarrow>
          Some \<lparr>name = ''VeilMailError'', message = m, code = c, status = st, details = det,
                piiTypes = JUndefined, retryAfter = JUndefined\<rparr>)"

definition AuthenticationError :: "jsval \<Rightarrow> veilmail_error option" where
  "AuthenticationError msg =
     map_option (\<lambda>e. e\<lparr>name := ''AuthenticationError''\<rparr>)
       (VeilMailError (default_arg msg (JStr ''Invalid API key'')) (JStr ''authentication_error'')
          (JNum (Num 401)) JUndefined)"

definition ForbiddenError :: "jsval \<Rightarrow> veilmail_error option" where
  "ForbiddenError msg =
     map_option (\<lambda>e. e\<lparr>name := ''ForbiddenError''\<rparr>)
       (VeilMailError (default_arg msg (JStr ''Access denied'')) (JStr ''forbidden'')
          (JNum (Num 403)) JUndefined)"

definition NotFoundError :: "string \<Rightarrow> string option \<Rightarrow> veilmail_error option" where
  "NotFoundError resource ident =
     (let msg = (case ident of
                   Some i \<Rightarrow> (if i \<noteq> [] then resource @ '' with ID '' @ [CHR 0x27] @ i @ [CHR 0x27] @ '' not found''
                              else resource @ '' not found'')
                 | None \<Rightarrow> resource @ '' not found'')
      in map_option (\<lambda>e. e\<lparr>name := ''NotFoundError''\<rparr>)
           (VeilMailError (JStr msg) (JStr ''not_found'') (JNum (Num 404)) JUndefined))"

definition ValidationError :: "jsval \<Rightarrow> jsval \<Rightarrow> veilmail_error option" where
  "ValidationError msg det =
     map_option (\<lambda>e. e\<lparr>name := ''ValidationError''\<rparr>)
       (VeilMailError msg (JStr ''validation_error'') (JNum (Num 400)) det)"

definition PiiDetectedError :: "jsval \<Rightarrow> jsval \<Rightarrow> veilmail_error option" where
  "PiiDetectedError msg pii =
     map_option (\<lambda>e. e\<lparr>name := ''PiiDetectedError'', piiTypes := pii\<rparr>)
       (VeilMailError msg (JStr ''pii_detected'') (JNum (Num 422)) (JObj [(''piiTypes'', pii)]))"

definition RateLimitError :: "jsval \<Rightarrow> jsval \<Rightarrow> veilmail_error option" where
  "RateLimitError msg ra =
     map_option (\<lambda>e. e\<lparr>name := ''RateLimitError'', retryAfter := ra\<rparr>)
       (VeilMailError (default_arg msg (JStr ''Rate limit exceeded'')) (JStr ''rate_limit'')
          (JNum (Num 429)) (if truthy ra then JObj [(''retryAfter'', ra)] else JUndefined))"

definition ServerError :: "jsval \<Rightarrow> jsval \<Rightarrow> veilmail_error option" where
  "ServerError msg st =
     map_option (\<lambda>e. e\<lparr>name := ''ServerError''\<rparr>)
       (VeilMailError (default_arg msg (JStr ''Internal server error'')) (JStr ''server_error'')
          (default_arg st (JNum (Num 500))) JUndefined)"

definition TimeoutError :: "jsnum \<Rightarrow> veilmail_error option" where
  "TimeoutError t =
     map_option (\<lambda>e. e\<lparr>name := ''TimeoutError''\<rparr>)
       (VeilMailError (JStr (''Request timed out after '' @ number_toString t @ ''ms''))
          (JStr ''timeout'') JUndefined JUndefined)"

definition NetworkError :: "string \<Rightarrow> veilmail_error option" where
  "NetworkError msg =
     map_option (\<lambda>e. e\<lparr>name := ''NetworkError''\<rparr>)
       (VeilMailError (JStr msg) (JStr ''network_error'') JUndefined JUndefined)"

subsection \<open>Thrown values and responses\<close>

text \<open>
  What a \<^verbatim>\<open>catch\<close> clause can receive: an \<^verbatim>\<open>Error\<close> instance that is not one of the
  SDK's (its name and message), one of the SDK's errors, or a value that is not an
  \<^verbatim>\<open>Error\<close> instance at all.
\<close>

datatype thrown = JsError string string | SdkError veilmail_error | NonError jsval

text \<open>
  \<^verbatim>\<open>throw new C(...)\<close> for one of the error classes: the new error, or the \<^verbatim>\<open>TypeError\<close> of a
  constructor that throws. The text of a \<^verbatim>\<open>TypeError\<close> that the engine raises differs
  between engines; a fixed text stands for it.
\<close>

definition throw_new :: "veilmail_error option \<Rightarrow> thrown" where
  "throw_new made =
     (case made of
        Some e \<Rightarrow> SdkError e
      | None \<Rightarrow> JsError ''TypeError'' ''Cannot convert object to primitive value'')"

text \<open>
  What the SDK reads of a fetch \<^verbatim>\<open>Response\<close>: the status, the status text, the header
  list (names in lower case, one entry per name, as the \<^verbatim>\<open>Headers\<close> object keeps them),
  and what awaiting \<^verbatim>\<open>json()\<close> and \<^verbatim>\<open>text()\<close> gives (\<open>Inl\<close> when the promise rejects:
  \<^verbatim>\<open>json()\<close> with a \<^verbatim>\<open>SyntaxError\<close> on a body that is not JSON, either of them when the
  transfer of the body fails).
\<close>

record response =
  response_status :: nat
  statusText :: string
  headers :: "(string \<times> string) list"
  json :: "thrown + jsval"
  text_body :: "thrown + string"

definition ok :: "response \<Rightarrow> bool" where
  "ok r = (200 \<le> response_status r \<and> response_status r \<le> 299)"

definition ascii_lower :: "char \<Rightarrow> char" where
  "ascii_lower c =
     (case map_of (zip ''ABCDEFGHIJKLMNOPQRSTUVWXYZ'' ''abcdefghijklmnopqrstuvwxyz'') c of
        Some l \<Rightarrow> l | None \<Rightarrow> c)"

text \<open>\<^verbatim>\<open>headers.get(name)\<close>: the name is matched without regard to case; \<^verbatim>\<open>null\<close> is \<open>None\<close>.\<close>

definition headers_get :: "(string \<times> string) list \<Rightarrow> string \<Rightarrow> string option" where
  "headers_get hs n = map_of hs (map ascii_lower n)"

subsection \<open>parseApiError\<close>

text \<open>\<open>None\<close>: the constructor called throws, and so does \<open>parseApiError\<close>.\<close>

definition parseApiError :: "response \<Rightarrow> jsval \<Rightarrow> veilmail_error option" where
  "parseApiError response body =
     (let st = response_status response;
          msg = nullish (js_get (js_get body ''error'') ''message'') (JStr (statusText response));
          c = nullish (js_get (js_get body ''error'') ''code'') (JStr ''unknown_error'');
          det = js_get (js_get body ''error'') ''details''
      in if st = 401 then AuthenticationError msg
         else if st = 403 then ForbiddenError msg
         else if st = 404 then NotFoundError ''Resource'' None
         else if st = 422 then
           (if c = JStr ''pii_detected'' \<and> truthy (js_get det ''piiTypes'')
            then PiiDetectedError msg (js_get det ''piiTypes'')
            else ValidationError msg det)
         else if st = 429 then
           (let ra = headers_get (headers response) ''Retry-After''
            in RateLimitError msg
                 (case ra of
                    Some h \<Rightarrow> (if h \<noteq> [] then JNum (parseInt10 h) else JUndefined)
                  | None \<Rightarrow> JUndefined))
         else if st \<ge> 500 then ServerError msg (JNum (Num (int st)))
         else VeilMailError msg c (JNum (Num (int st))) det)"

section \<open>The transport (client.ts)\<close>

subsection \<open>Constructing a client\<close>

text \<open>
  \<^verbatim>\<open>VeilMailConfig\<close>. An absent field (\<^verbatim>\<open>undefined\<close>) is \<open>None\<close>; that covers an API key
  that is missing altogether.
\<close>

record veilmail_config =
  config_apiKey :: "string option"
  config_baseUrl :: "string option"
  config_timeout :: "jsnum option"

record http_client =
  apiKey :: string
  baseUrl :: string
  timeout :: jsnum

definition DEFAULT_BASE_URL :: string where
  "DEFAULT_BASE_URL = ''https://api.veilmail.xyz''"

definition DEFAULT_TIMEOUT :: jsnum where
  "DEFAULT_TIMEOUT = Num 30000"

text \<open>\<^verbatim>\<open>s.replace(/\/$/, '')\<close>: one slash at the very end of the string is removed.\<close>

definition strip_trailing_slash :: "string \<Rightarrow> string" where
  "strip_trailing_slash s = (if s \<noteq> [] \<and> last s = CHR ''/'' then butlast s else s)"

text \<open>
  The constructor of \<^verbatim>\<open>HttpClient\<close>. \<open>Inl\<close> is the \<^verbatim>\<open>Error\<close> it throws; the constructor is
  synchronous, so a throw leaves no client object behind.
\<close>

definition HttpClient :: "veilmail_config \<Rightarrow> thrown + http_client" where
  "HttpClient config =
     (case config_apiKey config of
        None \<Rightarrow> Inl (JsError ''Error'' ''API key is required'')
      | Some k \<Rightarrow>
          if k = [] then Inl (JsError ''Error'' ''API key is required'')
          else if \<not> startsWith k ''veil_live_'' \<and> \<not> startsWith k ''veil_test_'' then
            Inl (JsError ''Error''
              ''Invalid API key format. API keys should start with veil_live_ or veil_test_'')
          else
            Inr \<lparr>apiKey = k,
                 baseUrl = (case config_baseUrl config of
                              Some b \<Rightarrow> strip_trailing_slash b | None \<Rightarrow> DEFAULT_BASE_URL),
                 timeout = (case config_timeout config of
                              Some t \<Rightarrow> t | None \<Rightarrow> DEFAULT_TIMEOUT)\<rparr>)"

text \<open>
  The \<^verbatim>\<open>VeilMail\<close> client takes an API key string or a configuration object. Every
  resource facade it creates holds the one \<^verbatim>\<open>HttpClient\<close>, which is all the record keeps.
\<close>

datatype apiKeyOrConfig = KeyString string | ConfigObject veilmail_config

record veilmail_client =
  http :: http_client

definition VeilMail :: "apiKeyOrConfig \<Rightarrow> thrown + veilmail_client" where
  "VeilMail arg =
     (let config = (case arg of
                      KeyString k \<Rightarrow> \<lparr>config_apiKey = Some k, config_baseUrl = None, config_timeout = None\<rparr>
                    | ConfigObject c \<Rightarrow> c)
      in case HttpClient config of
           Inl e \<Rightarrow> Inl e
         | Inr h \<Rightarrow> Inr \<lparr>http = h\<rparr>)"

subsection \<open>Awaiting the response\<close>

text \<open>
  What the awaited \<^verbatim>\<open>fetch\<close> call of one request does. \<open>TimerFired m\<close>: the timer set with
  \<^verbatim>\<open>setTimeout(() => controller.abort(), this.timeout)\<close> ran out before a response
  arrived, and the aborted fetch rejects with an \<^verbatim>\<open>Error\<close> named \<^verbatim>\<open>AbortError\<close> (its
  message \<open>m\<close> depends on the platform). \<open>Rejects t\<close>: fetch rejects with \<open>t\<close> for another
  reason, or building its arguments throws \<open>t\<close>. \<open>Responds r\<close>: the response \<open>r\<close> arrived
  in time.
\<close>

datatype fetch_outcome = TimerFired string | Rejects thrown | Responds response

definition await_fetch :: "fetch_outcome \<Rightarrow> thrown + response" where
  "await_fetch out =
     (case out of
        TimerFired m \<Rightarrow> Inl (JsError ''AbortError'' m)
      | Rejects t \<Rightarrow> Inl t
      | Responds r \<Rightarrow> Inr r)"

text \<open>The \<^verbatim>\<open>try\<close> block of \<^verbatim>\<open>HttpClient.request\<close>; \<open>Inl\<close> is what it throws.\<close>

definition request_try :: "fetch_outcome \<Rightarrow> thrown + jsval" where
  "request_try out =
     (case await_fetch out of
        Inl t \<Rightarrow> Inl t
      | Inr response \<Rightarrow>
          if response_status response = 204 then Inr JUndefined
          else
            (case (case headers_get (headers response) ''content-type'' of
                     Some contentType \<Rightarrow>
                       if str_includes contentType ''application/json'' then json response
                       else map_sum id JStr (text_body response)
                   | None \<Rightarrow> map_sum id JStr (text_body response)) of
               Inl t \<Rightarrow> Inl t
             | Inr body \<Rightarrow>
                 if \<not> ok response then Inl (throw_new (parseApiError response body))
                 else Inr body))"

text \<open>\<^verbatim>\<open>error instanceof Error\<close>, \<^verbatim>\<open>error.name\<close> and \<^verbatim>\<open>error.message\<close> for a caught value.\<close>

fun is_Error :: "thrown \<Rightarrow> bool" where
  "is_Error (JsError n m) = True"
| "is_Error (SdkError e) = True"
| "is_Error (NonError v) = False"

fun error_name :: "thrown \<Rightarrow> string" where
  "error_name (JsError n m) = n"
| "error_name (SdkError e) = name e"
| "error_name (NonError v) = []"

fun error_message :: "thrown \<Rightarrow> string" where
  "error_message (JsError n m) = m"
| "error_message (SdkError e) = message e"
| "error_message (NonError v) = []"

text \<open>The \<^verbatim>\<open>catch\<close> block: what is thrown to the caller for a caught \<open>error\<close>.\<close>

definition request_catch :: "http_client \<Rightarrow> thrown \<Rightarrow> thrown" where
  "request_catch client err =
     (if is_Error err then
        (if error_name err = ''AbortError'' then throw_new (TimeoutError (timeout client))
         else if error_name err = ''TypeError'' \<and> str_includes (error_message err) ''fetch'' then
           throw_new (NetworkError (''Network error: '' @ error_message err))
         else err)
      else err)"

text \<open>
  \<^verbatim>\<open>HttpClient.request\<close> from the \<^verbatim>\<open>fetch\<close> call on: \<open>Inr\<close> is the value the promise
  resolves to, \<open>Inl\<close> what it rejects with.
\<close>

definition request :: "http_client \<Rightarrow> fetch_outcome \<Rightarrow> thrown + jsval" where
  "request client out =
     (case request_try out of
        Inl err \<Rightarrow> Inl (request_catch client err)
      | Inr v \<Rightarrow> Inr v)"

subsection \<open>The request methods as the facades use them\<close>




section \<open>The templates facade (resources/templates.ts)\<close>









section \<open>Properties of the error classification\<close>

lemmas error_defs = Error_message_def VeilMailError_def AuthenticationError_def ForbiddenError_def
  NotFoundError_def ValidationError_def PiiDetectedError_def RateLimitError_def ServerError_def
  TimeoutError_def NetworkError_def

lemma parseInt10_empty: "parseInt10 [] = NaN"
  by (simp add: parseInt10_def)

lemma nullish_defined: "nullish a (JStr t) \<noteq> JUndefined"
  by (simp add: nullish_def)

text \<open>
  Whether \<open>parseApiError\<close> returns is decided by the status and the message alone: for a
  404 it always returns, for any other status exactly when the message has a string
  conversion.
\<close>

lemma parseApiError_returns:
  "(parseApiError r body = None)
     = (response_status r \<noteq> 404 \<and> js_toString (nullish (js_get (js_get body ''error'') ''message'') (JStr (statusText r))) = None)"
  by (simp add: parseApiError_def Let_def error_defs default_arg_def nullish_defined
      split: option.splits)

text \<open>
  C1 as it was stated fails: for a 401 response whose body has an \<^verbatim>\<open>error.message\<close> that is
  an object with an own \<^verbatim>\<open>toString\<close> property, \<^verbatim>\<open>new AuthenticationError(message)\<close> throws,
  and \<open>parseApiError\<close> returns no error at all.
\<close>

theorem parseApiError_kind_counterexample:
  "\<not> ok \<lparr>response_status = 401, statusText = ''Unauthorized'', headers = [],
        json = Inr JNull, text_body = Inr []\<rparr>
   \<and> parseApiError \<lparr>response_status = 401, statusText = ''Unauthorized'', headers = [],
        json = Inr JNull, text_body = Inr []\<rparr>
        (JObj [(''error'', JObj [(''message'', JObj [(''toString'', JNum (Num 1))])])]) = None"
  by (simp add: ok_def parseApiError_def Let_def error_defs nullish_def default_arg_def)

text \<open>
  C1, as amended. For a response that is not 2xx, \<open>parseApiError\<close> returns an error for
  every 404 and otherwise exactly when the body's \<^verbatim>\<open>error.message\<close> or, where the body has
  none, the status text has a string conversion. The class of the error returned is fixed
  by the status alone: 401 authentication, 403 forbidden, 404 not found, 422 validation or
  PII detected, 429 rate limited, 500 and above server, and for every other status the
  generic error, which carries the code and the details of the body, the string conversion
  of the message (with \<^verbatim>\<open>unknown_error\<close> and the status text where the body has no code or
  message) and the status itself.
\<close>

theorem parseApiError_kind:
  assumes "\<not> ok r"
  shows "(response_status r = 404 \<longrightarrow>
            (\<exists>e. parseApiError r body = Some e \<and> name e = ''NotFoundError''))
       \<and> (response_status r \<noteq> 404 \<and> js_toString (nullish (js_get (js_get body ''error'') ''message'') (JStr (statusText r))) = None \<longrightarrow>
            parseApiError r body = None)
       \<and> (js_toString (nullish (js_get (js_get body ''error'') ''message'') (JStr (statusText r))) = Some m \<longrightarrow>
            (\<exists>e. parseApiError r body = Some e
               \<and> (response_status r = 401 \<longrightarrow> name e = ''AuthenticationError'')
               \<and> (response_status r = 403 \<longrightarrow> name e = ''ForbiddenError'')
               \<and> (response_status r = 404 \<longrightarrow> name e = ''NotFoundError'')
               \<and> (response_status r = 422 \<longrightarrow>
                    name e = ''ValidationError'' \<or> name e = ''PiiDetectedError'')
               \<and> (response_status r = 429 \<longrightarrow> name e = ''RateLimitError'')
               \<and> (response_status r \<ge> 500 \<longrightarrow> name e = ''ServerError'')
               \<and> (response_status r < 500 \<and> response_status r \<notin> {401, 403, 404, 422, 429} \<longrightarrow>
                    name e = ''VeilMailError''
                    \<and> code e = nullish (js_get (js_get body ''error'') ''code'') (JStr ''unknown_error'')
                    \<and> message e = m
                    \<and> details e = js_get (js_get body ''error'') ''details''
                    \<and> status e = JNum (Num (int (response_status r))))))"
proof (intro conjI impI)
  assume "response_status r = 404"
  then show "\<exists>e. parseApiError r body = Some e \<and> name e = ''NotFoundError''"
    by (simp add: parseApiError_def Let_def error_defs)
next
  assume "response_status r \<noteq> 404 \<and> js_toString (nullish (js_get (js_get body ''error'') ''message'') (JStr (statusText r))) = None"
  then show "parseApiError r body = None"
    by (simp add: parseApiError_returns)
next
  assume "js_toString (nullish (js_get (js_get body ''error'') ''message'') (JStr (statusText r))) = Some m"
  then show "\<exists>e. parseApiError r body = Some e
               \<and> (response_status r = 401 \<longrightarrow> name e = ''AuthenticationError'')
               \<and> (response_status r = 403 \<longrightarrow> name e = ''ForbiddenError'')
               \<and> (response_status r = 404 \<longrightarrow> name e = ''NotFoundError'')
               \<and> (response_status r = 422 \<longrightarrow>
                    name e = ''ValidationError'' \<or> name e = ''PiiDetectedError'')
               \<and> (response_status r = 429 \<longrightarrow> name e = ''RateLimitError'')
               \<and> (response_status r \<ge> 500 \<longrightarrow> name e = ''ServerError'')
               \<and> (response_status r < 500 \<and> response_status r \<notin> {401, 403, 404, 422, 429} \<longrightarrow>
                    name e = ''VeilMailError''
                    \<and> code e = nullish (js_get (js_get body ''error'') ''code'') (JStr ''unknown_error'')
                    \<and> message e = m
                    \<and> details e = js_get (js_get body ''error'') ''details''
                    \<and> status e = JNum (Num (int (response_status r))))"
    by (simp add: parseApiError_def Let_def error_defs default_arg_def nullish_defined)
qed

theorem parseApiError_kind_witness:
  "\<not> ok \<lparr>response_status = 401, statusText = ''Unauthorized'', headers = [],
        json = Inr JNull, text_body = Inr []\<rparr>
   \<and> (\<exists>e. parseApiError \<lparr>response_status = 401, statusText = ''Unauthorized'', headers = [],
        json = Inr JNull, text_body = Inr []\<rparr> (JStr ''denied'') = Some e \<and> name e = ''AuthenticationError'')
   \<and> \<not> ok \<lparr>response_status = 503, statusText = ''Service Unavailable'', headers = [],
        json = Inr JNull, text_body = Inr []\<rparr>
   \<and> (\<exists>e. parseApiError \<lparr>response_status = 503, statusText = ''Service Unavailable'', headers = [],
        json = Inr JNull, text_body = Inr []\<rparr> JNull = Some e \<and> name e = ''ServerError'')
   \<and> \<not> ok \<lparr>response_status = 404, statusText = ''Not Found'', headers = [],
        json = Inr JNull, text_body = Inr []\<rparr>
   \<and> (\<exists>e. parseApiError \<lparr>response_status = 404, statusText = ''Not Found'', headers = [],
        json = Inr JNull, text_body = Inr []\<rparr>
         (JObj [(''error'', JObj [(''message'', JObj [(''toString'', JNum (Num 1))])])]) = Some e
         \<and> name e = ''NotFoundError'')
   \<and> \<not> ok \<lparr>response_status = 409, statusText = ''Conflict'', headers = [],
        json = Inr JNull, text_body = Inr []\<rparr>
   \<and> (\<exists>e. parseApiError \<lparr>response_status = 409, statusText = ''Conflict'', headers = [],
        json = Inr JNull, text_body = Inr []\<rparr>
         (JObj [(''error'', JObj [(''code'', JStr ''bad''), (''message'', JNum (Num 5))])]) = Some e
         \<and> name e = ''VeilMailError'' \<and> code e = JStr ''bad'' \<and> message e = ''5'')"
  using parseApiError_kind [of "\<lparr>response_status = 401, statusText = ''Unauthorized'', headers = [],
        json = Inr JNull, text_body = Inr []\<rparr>" "JStr ''denied''" "''Unauthorized''"]
    parseApiError_kind [of "\<lparr>response_status = 503, statusText = ''Service Unavailable'', headers = [],
        json = Inr JNull, text_body = Inr []\<rparr>" JNull "''Service Unavailable''"]
    parseApiError_kind [of "\<lparr>response_status = 404, statusText = ''Not Found'', headers = [],
        json = Inr JNull, text_body = Inr []\<rparr>"
        "(JObj [(''error'', JObj [(''message'', JObj [(''toString'', JNum (Num 1))])])])" "[]"]
    parseApiError_kind [of "\<lparr>response_status = 409, statusText = ''Conflict'', headers = [],
        json = Inr JNull, text_body = Inr []\<rparr>"
        "(JObj [(''error'', JObj [(''code'', JStr ''bad''), (''message'', JNum (Num 5))])])" "''5''"]
  by (auto simp add: ok_def nullish_def nat_toString.simps digit_char_def)

text \<open>
  C4 as it was stated fails twice over. A 422 response with the code \<^verbatim>\<open>pii_detected\<close> whose
  \<^verbatim>\<open>details.piiTypes\<close> is the string \<^verbatim>\<open>SSN\<close>, not a list, is among the other 422 responses,
  and \<open>parseApiError\<close> returns a PII-detected error for it, not a validation error. And
  for a 422 response with the code \<^verbatim>\<open>pii_detected\<close> and the list \<^verbatim>\<open>["SSN"]\<close> whose
  \<^verbatim>\<open>error.message\<close> is an object with an own \<^verbatim>\<open>toString\<close> property, the constructor throws
  and no error is returned.
\<close>

theorem pii_other_422_counterexample:
  "js_get (js_get (js_get
       (JObj [(''error'', JObj [(''code'', JStr ''pii_detected''), (''message'', JStr ''PII detected''),
                                (''details'', JObj [(''piiTypes'', JStr ''SSN'')])])])
       ''error'') ''details'') ''piiTypes'' = JStr ''SSN''
   \<and> map_option name (parseApiError \<lparr>response_status = 422, statusText = ''Unprocessable Entity'', headers = [],
        json = Inr JNull, text_body = Inr []\<rparr>
        (JObj [(''error'', JObj [(''code'', JStr ''pii_detected''), (''message'', JStr ''PII detected''),
                                (''details'', JObj [(''piiTypes'', JStr ''SSN'')])])]))
      = Some ''PiiDetectedError''
   \<and> parseApiError \<lparr>response_status = 422, statusText = ''Unprocessable Entity'', headers = [],
        json = Inr JNull, text_body = Inr []\<rparr>
        (JObj [(''error'', JObj [(''code'', JStr ''pii_detected''), (''message'', JObj [(''toString'', JNum (Num 1))]),
                                (''details'', JObj [(''piiTypes'', JArr [JStr ''SSN''])])])])
      = None"
  by (simp add: parseApiError_def Let_def error_defs nullish_def default_arg_def)

text \<open>
  C4, as amended. Take a 422 response whose message (the body's \<^verbatim>\<open>error.message\<close> or, where
  the body has none, the status text) has a string conversion. If the body has the code
  \<^verbatim>\<open>pii_detected\<close> and a truthy \<^verbatim>\<open>details.piiTypes\<close> (every list is truthy, and so is a
  non-empty string, a non-zero number, \<^verbatim>\<open>true\<close> and an object), \<open>parseApiError\<close> returns a
  PII-detected error whose \<open>piiTypes\<close> is that value; for every other body it returns a
  validation error that carries the details of the body. Where the message has no string
  conversion, no error is returned.
\<close>

theorem pii_detected_422:
  assumes "response_status r = 422"
  shows "(js_toString (nullish (js_get (js_get body ''error'') ''message'') (JStr (statusText r))) = Some m \<longrightarrow>
            (\<exists>e. parseApiError r body = Some e
               \<and> (js_get (js_get body ''error'') ''code'' = JStr ''pii_detected'' \<and> truthy (js_get (js_get (js_get body ''error'') ''details'') ''piiTypes'') \<longrightarrow>
                    name e = ''PiiDetectedError'' \<and> piiTypes e = js_get (js_get (js_get body ''error'') ''details'') ''piiTypes'')
               \<and> (js_get (js_get body ''error'') ''code'' = JStr ''pii_detected'' \<and> js_get (js_get (js_get body ''error'') ''details'') ''piiTypes'' = JArr xs \<longrightarrow>
                    name e = ''PiiDetectedError'' \<and> piiTypes e = JArr xs)
               \<and> (\<not> (js_get (js_get body ''error'') ''code'' = JStr ''pii_detected'' \<and> truthy (js_get (js_get (js_get body ''error'') ''details'') ''piiTypes'')) \<longrightarrow>
                    name e = ''ValidationError'' \<and> details e = js_get (js_get body ''error'') ''details'')))
       \<and> (js_toString (nullish (js_get (js_get body ''error'') ''message'') (JStr (statusText r))) = None \<longrightarrow> parseApiError r body = None)"
proof (intro conjI impI)
  assume "js_toString (nullish (js_get (js_get body ''error'') ''message'') (JStr (statusText r))) = None"
  with assms show "parseApiError r body = None"
    by (simp add: parseApiError_returns)
next
  assume conv: "js_toString (nullish (js_get (js_get body ''error'') ''message'') (JStr (statusText r))) = Some m"
  show "\<exists>e. parseApiError r body = Some e
               \<and> (js_get (js_get body ''error'') ''code'' = JStr ''pii_detected'' \<and> truthy (js_get (js_get (js_get body ''error'') ''details'') ''piiTypes'') \<longrightarrow>
                    name e = ''PiiDetectedError'' \<and> piiTypes e = js_get (js_get (js_get body ''error'') ''details'') ''piiTypes'')
               \<and> (js_get (js_get body ''error'') ''code'' = JStr ''pii_detected'' \<and> js_get (js_get (js_get body ''error'') ''details'') ''piiTypes'' = JArr xs \<longrightarrow>
                    name e = ''PiiDetectedError'' \<and> piiTypes e = JArr xs)
               \<and> (\<not> (js_get (js_get body ''error'') ''code'' = JStr ''pii_detected'' \<and> truthy (js_get (js_get (js_get body ''error'') ''details'') ''piiTypes'')) \<longrightarrow>
                    name e = ''ValidationError'' \<and> details e = js_get (js_get body ''error'') ''details'')"
  proof (cases "js_get (js_get body ''error'') ''code'' = JStr ''pii_detected'' \<and> truthy (js_get (js_get (js_get body ''error'') ''details'') ''piiTypes'')")
    case True
    with assms conv show ?thesis
      by (auto simp add: parseApiError_def Let_def error_defs nullish_def)
  next
    case False
    with assms conv show ?thesis
      by (auto simp add: parseApiError_def Let_def error_defs nullish_def)
  qed
qed

theorem pii_detected_422_witness:
  "response_status \<lparr>response_status = 422, statusText = ''Unprocessable Entity'', headers = [],
        json = Inr JNull, text_body = Inr []\<rparr> = 422
   \<and> (\<exists>e. parseApiError \<lparr>response_status = 422, statusText = ''Unprocessable Entity'', headers = [],
        json = Inr JNull, text_body = Inr []\<rparr>
        (JObj [(''error'', JObj [(''code'', JStr ''pii_detected''), (''message'', JStr ''PII detected''),
                                (''details'', JObj [(''piiTypes'', JArr [JStr ''SSN''])])])]) = Some e
        \<and> name e = ''PiiDetectedError'' \<and> piiTypes e = JArr [JStr ''SSN''])
   \<and> (\<exists>e. parseApiError \<lparr>response_status = 422, statusText = ''Unprocessable Entity'', headers = [],
        json = Inr JNull, text_body = Inr []\<rparr> (JStr ''no envelope'') = Some e
        \<and> name e = ''ValidationError'')"
  using pii_detected_422 [of "\<lparr>response_status = 422, statusText = ''Unprocessable Entity'', headers = [],
        json = Inr JNull, text_body = Inr []\<rparr>"
        "(JObj [(''error'', JObj [(''code'', JStr ''pii_detected''), (''message'', JStr ''PII detected''),
                                (''details'', JObj [(''piiTypes'', JArr [JStr ''SSN''])])])])" "''PII detected''" "[JStr ''SSN'']"]
    pii_detected_422 [of "\<lparr>response_status = 422, statusText = ''Unprocessable Entity'', headers = [],
        json = Inr JNull, text_body = Inr []\<rparr>" "JStr ''no envelope''"
        "''Unprocessable Entity''"]
  by (auto simp add: nullish_def)

text \<open>
  C5 as it was stated fails: for a 429 response with the header \<^verbatim>\<open>Retry-After: 120\<close> whose
  body has an \<^verbatim>\<open>error.message\<close> that is an object with an own \<^verbatim>\<open>toString\<close> property,
  \<^verbatim>\<open>new RateLimitError(message, 120)\<close> throws, and no rate-limit error is returned.
\<close>

theorem rate_limit_retry_after_counterexample:
  "headers_get (headers \<lparr>response_status = 429, statusText = ''Too Many Requests'', headers = [(''retry-after'', ''120'')],
        json = Inr JNull, text_body = Inr []\<rparr>) ''Retry-After'' = Some ''120''
   \<and> parseInt10 ''120'' = Num 120
   \<and> parseApiError \<lparr>response_status = 429, statusText = ''Too Many Requests'', headers = [(''retry-after'', ''120'')],
        json = Inr JNull, text_body = Inr []\<rparr>
        (JObj [(''error'', JObj [(''message'', JObj [(''toString'', JNum (Num 1))])])]) = None"
  by (simp add: parseApiError_def Let_def error_defs nullish_def default_arg_def headers_get_def
      ascii_lower_def parseInt10_def is_js_whitespace_def is_digit_def digit_val_def dec_value_def)

text \<open>
  C5, as amended. Take a 429 response whose message (the body's \<^verbatim>\<open>error.message\<close> or, where
  the body has none, the status text) has a string conversion. \<open>parseApiError\<close> returns a
  rate-limit error; with a \<^verbatim>\<open>Retry-After\<close> header that \<^verbatim>\<open>parseInt\<close> reads as the integer \<open>n\<close>,
  its \<open>retryAfter\<close> is the number \<open>n\<close>, and without the header it is \<^verbatim>\<open>undefined\<close>. Where the
  message has no string conversion, no error is returned.
\<close>

theorem rate_limit_retry_after:
  assumes "response_status r = 429"
  shows "(js_toString (nullish (js_get (js_get body ''error'') ''message'') (JStr (statusText r))) = Some m \<longrightarrow>
            (\<exists>e. parseApiError r body = Some e
               \<and> name e = ''RateLimitError''
               \<and> (headers_get (headers r) ''Retry-After'' = Some h \<and> parseInt10 h = Num n \<longrightarrow>
                    retryAfter e = JNum (Num n))
               \<and> (headers_get (headers r) ''Retry-After'' = None \<longrightarrow> retryAfter e = JUndefined)))
       \<and> (js_toString (nullish (js_get (js_get body ''error'') ''message'') (JStr (statusText r))) = None \<longrightarrow> parseApiError r body = None)"
  using assms parseInt10_empty
  by (auto simp add: parseApiError_def Let_def error_defs default_arg_def nullish_defined)

theorem rate_limit_retry_after_witness:
  "response_status \<lparr>response_status = 429, statusText = ''Too Many Requests'', headers = [(''retry-after'', ''120'')],
        json = Inr JNull, text_body = Inr []\<rparr> = 429
   \<and> headers_get (headers \<lparr>response_status = 429, statusText = ''Too Many Requests'', headers = [(''retry-after'', ''120'')],
        json = Inr JNull, text_body = Inr []\<rparr>) ''Retry-After'' = Some ''120''
   \<and> parseInt10 ''120'' = Num 120
   \<and> (\<exists>e. parseApiError \<lparr>response_status = 429, statusText = ''Too Many Requests'', headers = [(''retry-after'', ''120'')],
        json = Inr JNull, text_body = Inr []\<rparr> JNull = Some e
          \<and> name e = ''RateLimitError'' \<and> retryAfter e = JNum (Num 120))
   \<and> headers_get (headers \<lparr>response_status = 429, statusText = ''Too Many Requests'', headers = [],
        json = Inr JNull, text_body = Inr []\<rparr>) ''Retry-After'' = None
   \<and> (\<exists>e. parseApiError \<lparr>response_status = 429, statusText = ''Too Many Requests'', headers = [],
        json = Inr JNull, text_body = Inr []\<rparr> JNull = Some e
          \<and> retryAfter e = JUndefined)"
  using rate_limit_retry_after [of "\<lparr>response_status = 429, statusText = ''Too Many Requests'', headers = [(''retry-after'', ''120'')],
        json = Inr JNull, text_body = Inr []\<rparr>" JNull "''Too Many Requests''" "''120''" 120]
    rate_limit_retry_after [of "\<lparr>response_status = 429, statusText = ''Too Many Requests'', headers = [],
        json = Inr JNull, text_body = Inr []\<rparr>" JNull "''Too Many Requests''" "[]" 0]
  by (auto simp add: nullish_def headers_get_def ascii_lower_def parseInt10_def is_js_whitespace_def
      is_digit_def digit_val_def dec_value_def)

text \<open>
  C6 as it was stated fails: for a 500 response with an empty status text (as every
  HTTP/2 response has) and an empty text body, \<open>parseApiError\<close> returns an error whose
  message is the empty string; and so it does for a 401 response whose body has the empty
  array as \<^verbatim>\<open>error.message\<close>.
\<close>

theorem error_message_empty_counterexample:
  "map_option message (parseApiError \<lparr>response_status = 500, statusText = '''', headers = [],
        json = Inr JNull, text_body = Inr []\<rparr> (JStr [])) = Some []
   \<and> map_option message (parseApiError \<lparr>response_status = 401, statusText = ''Unauthorized'', headers = [],
        json = Inr JNull, text_body = Inr []\<rparr>
        (JObj [(''error'', JObj [(''message'', JArr [])])])) = Some []"
  by (simp add: parseApiError_def Let_def error_defs nullish_def default_arg_def)

text \<open>
  C6, as amended. For a 404 response the message of the error from \<open>parseApiError\<close> is the
  fixed text \<^verbatim>\<open>Resource not found\<close>. For every other response it is the string conversion
  of the body's \<^verbatim>\<open>error.message\<close> or, where the body has none, of the status text, and so
  non-empty exactly when that conversion is; where there is no conversion, no error is
  returned. Every error that the \<^verbatim>\<open>catch\<close> block of the transport builds (for a timeout or
  a network failure) has a non-empty message.
\<close>

theorem error_message_nonempty:
  "(response_status r = 404 \<longrightarrow>
      map_option message (parseApiError r body) = Some ''Resource not found'')
   \<and> (response_status r \<noteq> 404 \<longrightarrow>
        map_option message (parseApiError r body) = js_toString (nullish (js_get (js_get body ''error'') ''message'') (JStr (statusText r))))
   \<and> (js_toString (nullish (js_get (js_get body ''error'') ''message'') (JStr (statusText r))) = Some s \<and> s \<noteq> [] \<longrightarrow>
        (\<exists>e. parseApiError r body = Some e \<and> message e \<noteq> []))
   \<and> (request_catch client (JsError n x) = SdkError e \<longrightarrow> message e \<noteq> [])"
proof -
  have missing: "response_status r = 404 \<longrightarrow>
      map_option message (parseApiError r body) = Some ''Resource not found''"
    by (simp add: parseApiError_def Let_def error_defs)
  have other: "response_status r \<noteq> 404 \<longrightarrow>
        map_option message (parseApiError r body) = js_toString (nullish (js_get (js_get body ''error'') ''message'') (JStr (statusText r)))"
    by (simp add: parseApiError_def Let_def error_defs default_arg_def nullish_defined
        option.map_comp comp_def split: option.splits)
  have caught: "request_catch client (JsError n x) = SdkError e \<longrightarrow> message e \<noteq> []"
    by (auto simp add: request_catch_def throw_new_def error_defs split: if_splits)
  have "js_toString (nullish (js_get (js_get body ''error'') ''message'') (JStr (statusText r))) = Some s \<and> s \<noteq> [] \<longrightarrow>
        (\<exists>e. parseApiError r body = Some e \<and> message e \<noteq> [])"
  proof (cases "response_status r = 404")
    case True
    with missing show ?thesis by auto
  next
    case False
    with other show ?thesis by auto
  qed
  with missing other caught show ?thesis
    by blast
qed

theorem error_message_nonempty_witness:
  "js_toString (nullish (js_get (js_get JNull ''error'') ''message'') (JStr (statusText \<lparr>response_status = 401, statusText = ''Unauthorized'', headers = [],
        json = Inr JNull, text_body = Inr []\<rparr>)))
     = Some ''Unauthorized''
   \<and> (\<exists>e. parseApiError \<lparr>response_status = 401, statusText = ''Unauthorized'', headers = [],
        json = Inr JNull, text_body = Inr []\<rparr> JNull = Some e \<and> message e = ''Unauthorized'')
   \<and> (\<exists>e. request_catch \<lparr>apiKey = ''veil_test_k'', baseUrl = DEFAULT_BASE_URL, timeout = Num 50\<rparr> (JsError ''AbortError'' ''aborted'') = SdkError e
          \<and> message e \<noteq> [])"
proof -
  let ?r = "\<lparr>response_status = 401, statusText = ''Unauthorized'', headers = [],
        json = Inr JNull, text_body = Inr []\<rparr>"
  let ?c = "\<lparr>apiKey = ''veil_test_k'', baseUrl = DEFAULT_BASE_URL, timeout = Num 50\<rparr>"
  have conv: "js_toString (nullish (js_get (js_get JNull ''error'') ''message'') (JStr (statusText ?r)))
     = Some ''Unauthorized''"
    by (simp add: nullish_def)
  have status: "response_status ?r \<noteq> 404"
    by simp
  obtain e' where caught: "request_catch ?c (JsError ''AbortError'' ''aborted'') = SdkError e'"
    by (simp add: request_catch_def throw_new_def error_defs)
  note facts = error_message_nonempty [of ?r JNull "''Unauthorized''" ?c "''AbortError''" "''aborted''" e']
  from facts status conv have "map_option message (parseApiError ?r JNull) = Some ''Unauthorized''"
    by simp
  then have "\<exists>e. parseApiError ?r JNull = Some e \<and> message e = ''Unauthorized''"
    by auto
  moreover from facts caught have "message e' \<noteq> []"
    by blast
  ultimately show ?thesis
    using conv caught by blast
qed

text \<open>
  C9. The \<open>ValidationError\<close> constructor fixes the status 400, so every validation error
  that \<open>parseApiError\<close> returns for a 422 response has the status 400, which is not the
  status of the response.
\<close>

theorem validation_error_status_400:
  "(ValidationError msg det = Some v \<longrightarrow> status v = JNum (Num 400))
   \<and> (response_status r = 422 \<and> parseApiError r body = Some e \<and> name e = ''ValidationError'' \<longrightarrow>
        status e = JNum (Num 400)
        \<and> status e \<noteq> JNum (Num (int (response_status r))))
   \<and> (response_status r = 422
       \<and> js_toString (nullish (js_get (js_get body ''error'') ''message'') (JStr (statusText r))) = Some m
       \<and> \<not> (js_get (js_get body ''error'') ''code'' = JStr ''pii_detected''
              \<and> truthy (js_get (js_get (js_get body ''error'') ''details'') ''piiTypes'')) \<longrightarrow>
        (\<exists>e. parseApiError r body = Some e \<and> name e = ''ValidationError''
           \<and> status e = JNum (Num 400)))"
proof (intro conjI impI)
  assume "ValidationError msg det = Some v"
  then show "status v = JNum (Num 400)"
    by (auto simp add: error_defs split: option.splits)
next
  assume "response_status r = 422 \<and> parseApiError r body = Some e \<and> name e = ''ValidationError''"
  then show "status e = JNum (Num 400)" "status e \<noteq> JNum (Num (int (response_status r)))"
    by (auto simp add: parseApiError_def Let_def error_defs split: option.splits if_splits)
next
  assume "response_status r = 422
       \<and> js_toString (nullish (js_get (js_get body ''error'') ''message'') (JStr (statusText r))) = Some m
       \<and> \<not> (js_get (js_get body ''error'') ''code'' = JStr ''pii_detected''
              \<and> truthy (js_get (js_get (js_get body ''error'') ''details'') ''piiTypes''))"
  then show "\<exists>e. parseApiError r body = Some e \<and> name e = ''ValidationError''
           \<and> status e = JNum (Num 400)"
    by (auto simp add: parseApiError_def Let_def error_defs nullish_def)
qed

theorem validation_error_status_400_witness:
  "response_status \<lparr>response_status = 422, statusText = ''Unprocessable Entity'', headers = [],
        json = Inr JNull, text_body = Inr []\<rparr> = 422
   \<and> (\<exists>e. parseApiError \<lparr>response_status = 422, statusText = ''Unprocessable Entity'', headers = [],
        json = Inr JNull, text_body = Inr []\<rparr>
        (JObj [(''error'', JObj [(''code'', JStr ''invalid''), (''message'', JStr ''bad field'')])]) = Some e
        \<and> name e = ''ValidationError'' \<and> status e = JNum (Num 400))"
proof -
  let ?r = "\<lparr>response_status = 422, statusText = ''Unprocessable Entity'', headers = [],
        json = Inr JNull, text_body = Inr []\<rparr>"
  let ?b = "(JObj [(''error'', JObj [(''code'', JStr ''invalid''), (''message'', JStr ''bad field'')])])"
  obtain e where e: "parseApiError ?r ?b = Some e" "name e = ''ValidationError''"
    by (simp add: parseApiError_def Let_def error_defs nullish_def default_arg_def)
  with validation_error_status_400 [of "JStr ''bad field''" JUndefined e ?r ?b e "''bad field''"]
  have "status e = JNum (Num 400)"
    by simp
  with e show ?thesis
    by auto
qed

section \<open>Properties of the transport\<close>

lemma TimeoutError_made:
  "TimeoutError t
     = Some \<lparr>name = ''TimeoutError'',
             message = ''Request timed out after '' @ number_toString t @ ''ms'',
             code = JStr ''timeout'', status = JUndefined, details = JUndefined,
             piiTypes = JUndefined, retryAfter = JUndefined\<rparr>"
  by (simp add: error_defs)

lemma request_catch_not_abort: "request_catch client err \<noteq> JsError ''AbortError'' m"
  by (cases err) (auto simp add: request_catch_def throw_new_def error_defs)

text \<open>
  C2. When the timer of a request runs out before a response arrives, \<open>request\<close> rejects
  with a \<open>TimeoutError\<close> whose message is \<^verbatim>\<open>Request timed out after\<close>, the configured
  timeout in milliseconds, and \<^verbatim>\<open>ms\<close>; and whatever the fetch does, \<open>request\<close> never rejects
  with an \<^verbatim>\<open>Error\<close> named \<^verbatim>\<open>AbortError\<close>.
\<close>

theorem request_timeout:
  "(\<exists>e. TimeoutError (timeout client) = Some e
      \<and> request client (TimerFired m) = Inl (SdkError e)
      \<and> name e = ''TimeoutError''
      \<and> message e = ''Request timed out after '' @ number_toString (timeout client) @ ''ms'')
   \<and> request client out \<noteq> Inl (JsError ''AbortError'' m')"
proof -
  have "request client out \<noteq> Inl (JsError ''AbortError'' m')"
    by (cases "request_try out") (simp_all add: request_def request_catch_not_abort)
  then show ?thesis
    by (simp add: request_def request_try_def await_fetch_def request_catch_def throw_new_def
        TimeoutError_made)
qed

theorem request_timeout_witness:
  "HttpClient \<lparr>config_apiKey = Some ''veil_test_key'', config_baseUrl = None, config_timeout = Some (Num 50)\<rparr>
     = Inr \<lparr>apiKey = ''veil_test_key'', baseUrl = DEFAULT_BASE_URL, timeout = Num 50\<rparr>
   \<and> (\<exists>e. request \<lparr>apiKey = ''veil_test_key'', baseUrl = DEFAULT_BASE_URL, timeout = Num 50\<rparr>
            (TimerFired ''This operation was aborted'') = Inl (SdkError e)
          \<and> name e = ''TimeoutError''
          \<and> message e = ''Request timed out after 50ms'')"
  using request_timeout [of "\<lparr>apiKey = ''veil_test_key'', baseUrl = DEFAULT_BASE_URL, timeout = Num 50\<rparr>"
      "''This operation was aborted''"]
  by (auto simp add: HttpClient_def startsWith_def nat_toString.simps digit_char_def)

text \<open>
  C7. For a response with status 204, \<open>request\<close> resolves to \<^verbatim>\<open>undefined\<close> whatever reading
  or parsing the body would give, so no parse error can come of it. For any other
  successful response whose content type is absent or does not contain
  \<^verbatim>\<open>application/json\<close>, \<open>request\<close> resolves to the text of the body as a string, and the result
  of \<^verbatim>\<open>json()\<close> plays no part.
\<close>

theorem request_204_and_text:
  "(response_status r = 204 \<longrightarrow> request client (Responds r) = Inr JUndefined)
   \<and> (ok r \<and> response_status r \<noteq> 204
       \<and> (case headers_get (headers r) ''content-type'' of
             None \<Rightarrow> True | Some ct \<Rightarrow> \<not> str_includes ct ''application/json'')
       \<and> text_body r = Inr t \<longrightarrow>
         request client (Responds r) = Inr (JStr t))"
  by (auto simp add: request_def request_try_def await_fetch_def split: option.splits)

theorem request_204_and_text_witness:
  "request \<lparr>apiKey = ''veil_test_key'', baseUrl = DEFAULT_BASE_URL, timeout = Num 50\<rparr>
     (Responds \<lparr>response_status = 204, statusText = ''No Content'',
        headers = [(''content-type'', ''application/json'')],
        json = Inl (JsError ''SyntaxError'' ''Unexpected end of JSON input''), text_body = Inr []\<rparr>)
     = Inr JUndefined
   \<and> ok \<lparr>response_status = 200, statusText = ''OK'', headers = [(''content-type'', ''text/plain'')],
        json = Inl (JsError ''SyntaxError'' ''Unexpected token''), text_body = Inr ''pong''\<rparr>
   \<and> request \<lparr>apiKey = ''veil_test_key'', baseUrl = DEFAULT_BASE_URL, timeout = Num 50\<rparr>
     (Responds \<lparr>response_status = 200, statusText = ''OK'', headers = [(''content-type'', ''text/plain'')],
        json = Inl (JsError ''SyntaxError'' ''Unexpected token''), text_body = Inr ''pong''\<rparr>)
     = Inr (JStr ''pong'')"
  using request_204_and_text [of "\<lparr>response_status = 204, statusText = ''No Content'',
        headers = [(''content-type'', ''application/json'')],
        json = Inl (JsError ''SyntaxError'' ''Unexpected end of JSON input''), text_body = Inr []\<rparr>"
        "\<lparr>apiKey = ''veil_test_key'', baseUrl = DEFAULT_BASE_URL, timeout = Num 50\<rparr>"]
    request_204_and_text [of "\<lparr>response_status = 200, statusText = ''OK'', headers = [(''content-type'', ''text/plain'')],
        json = Inl (JsError ''SyntaxError'' ''Unexpected token''), text_body = Inr ''pong''\<rparr>"
        "\<lparr>apiKey = ''veil_test_key'', baseUrl = DEFAULT_BASE_URL, timeout = Num 50\<rparr>" "''pong''"]
  by (simp add: ok_def headers_get_def ascii_lower_def startsWith_def)

text \<open>
  C3. Constructing an \<open>HttpClient\<close> or a \<open>VeilMail\<close> client throws when the API key is
  missing or starts with neither \<^verbatim>\<open>veil_live_\<close> nor \<^verbatim>\<open>veil_test_\<close>, so that no client exists
  to issue a request; with a key that has one of the two prefixes, construction succeeds
  and the client holds that key.
\<close>

theorem constructor_api_key:
  "(config_apiKey cfg = None
      \<or> (\<exists>k. config_apiKey cfg = Some k \<and> \<not> startsWith k ''veil_live_'' \<and> \<not> startsWith k ''veil_test_'') \<longrightarrow>
        (\<exists>e. HttpClient cfg = Inl e) \<and> (\<exists>e. VeilMail (ConfigObject cfg) = Inl e))
   \<and> (\<not> startsWith key ''veil_live_'' \<and> \<not> startsWith key ''veil_test_'' \<longrightarrow>
        (\<exists>e. VeilMail (KeyString key) = Inl e))
   \<and> (config_apiKey cfg = Some key \<and> (startsWith key ''veil_live_'' \<or> startsWith key ''veil_test_'') \<longrightarrow>
        (\<exists>c. HttpClient cfg = Inr c \<and> apiKey c = key)
        \<and> (\<exists>v. VeilMail (ConfigObject cfg) = Inr v \<and> apiKey (http v) = key))
   \<and> (startsWith key ''veil_live_'' \<or> startsWith key ''veil_test_'' \<longrightarrow>
        (\<exists>v. VeilMail (KeyString key) = Inr v \<and> apiKey (http v) = key))"
  by (auto simp add: HttpClient_def VeilMail_def startsWith_def split: option.splits)

theorem constructor_api_key_witness:
  "\<not> startsWith ''abc123'' ''veil_live_'' \<and> \<not> startsWith ''abc123'' ''veil_test_''
   \<and> (\<exists>e. VeilMail (KeyString ''abc123'') = Inl e)
   \<and> (\<exists>e. HttpClient \<lparr>config_apiKey = None, config_baseUrl = None, config_timeout = None\<rparr> = Inl e)
   \<and> startsWith ''veil_test_key'' ''veil_test_''
   \<and> (\<exists>v. VeilMail (KeyString ''veil_test_key'') = Inr v \<and> apiKey (http v) = ''veil_test_key'')"
  using constructor_api_key [of "\<lparr>config_apiKey = None, config_baseUrl = None, config_timeout = None\<rparr>" "''abc123''"]
    constructor_api_key [of "\<lparr>config_apiKey = None, config_baseUrl = None, config_timeout = None\<rparr>" "''veil_test_key''"]
  by (simp add: startsWith_def)

section \<open>Properties of the templates facade\<close>









end
